theory Spec2Isabelle
  imports Main "HOL-Library.Sublist"
begin

section \<open>Scenario lifecycle of playwright-bdd: hooks and world\<close>

text \<open>
  The repository wires Cucumber hooks to a Playwright browser. Two source files carry
  the logic: \<^verbatim>\<open>support/hooks.js\<close> (the \<^verbatim>\<open>Before\<close> and \<^verbatim>\<open>After\<close> hooks) and
  \<^verbatim>\<open>support/world.js\<close> (the class \<^verbatim>\<open>CustomWorld\<close>). Playwright and the Cucumber
  runner are external: their operations are a parameter of the model (a record of
  functions over a state of their own), every call the hooks make is appended to a
  call log, and a rejected promise or a thrown exception is the \<open>Inl\<close> branch of a sum.
\<close>

subsection \<open>Values, handles and errors\<close>

type_synonym engine = string
type_synonym browser_handle = nat
type_synonym context_handle = nat
type_synonym page_handle = nat
type_synonym attach_handle = nat
type_synonym buffer = string

text \<open>
  What the JavaScript can throw: \<^verbatim>\<open>new Error(msg)\<close> raised by the world itself, the
  \<^verbatim>\<open>TypeError\<close> of reading \<^verbatim>\<open>.launch\<close> from a property that the \<^verbatim>\<open>playwright\<close> module
  does not have, and whatever the driver or the runner rejects with.
\<close>

datatype error = Error string | TypeError string | DriverFailure string

text \<open>The JavaScript values a result status is inspected as (the runner delivers strings).\<close>

datatype jsval = JUndefined | JNull | JBool bool | JStr string

text \<open>Every call that leaves the hooks and the world, in the order it is made.\<close>

datatype event =
    Launch engine bool
  | NewContext browser_handle
  | NewPage context_handle
  | Screenshot page_handle bool
  | Attach attach_handle buffer string
  | PageClose page_handle
  | ContextClose context_handle
  | BrowserClose browser_handle
  | Goto page_handle string
  | WaitForLoadState page_handle string nat
  | ConsoleLog string

subsection \<open>The external collaborators\<close>

text \<open>
  \<open>'d\<close> is the state of the driver and the runner. \<open>playwright\<close> is the property lookup
  \<^verbatim>\<open>playwright[browserName]\<close>: \<open>None\<close> where the module has no property of that name
  (the lookup is \<^verbatim>\<open>undefined\<close>). What \<^verbatim>\<open>.launch(...)\<close> on a property does is \<open>launch\<close>.
\<close>

record 'd driver =
  playwright :: "string \<Rightarrow> engine option"
  launch :: "engine \<Rightarrow> bool \<Rightarrow> 'd \<Rightarrow> (error + browser_handle) \<times> 'd"
  newContext :: "browser_handle \<Rightarrow> 'd \<Rightarrow> (error + context_handle) \<times> 'd"
  newPage :: "context_handle \<Rightarrow> 'd \<Rightarrow> (error + page_handle) \<times> 'd"
  screenshot :: "page_handle \<Rightarrow> bool \<Rightarrow> 'd \<Rightarrow> (error + buffer) \<times> 'd"
  page_goto :: "page_handle \<Rightarrow> string \<Rightarrow> 'd \<Rightarrow> (error + unit) \<times> 'd"
  page_waitForLoadState :: "page_handle \<Rightarrow> string \<Rightarrow> nat \<Rightarrow> 'd \<Rightarrow> (error + unit) \<times> 'd"
  page_close :: "page_handle \<Rightarrow> 'd \<Rightarrow> (error + unit) \<times> 'd"
  context_close :: "context_handle \<Rightarrow> 'd \<Rightarrow> (error + unit) \<times> 'd"
  browser_close :: "browser_handle \<Rightarrow> 'd \<Rightarrow> (error + unit) \<times> 'd"
  run_attach :: "attach_handle \<Rightarrow> buffer \<Rightarrow> string \<Rightarrow> 'd \<Rightarrow> (error + unit) \<times> 'd"

type_synonym 'd st = "'d \<times> event list"

text \<open>An awaited external call: the collaborator answers and the call is logged.\<close>

definition call :: "event \<Rightarrow> ('d \<Rightarrow> (error + 'a) \<times> 'd) \<Rightarrow> 'd st \<Rightarrow> (error + 'a) \<times> 'd st" where
  "call ev f s = (case f (fst s) of (r, d') \<Rightarrow> (r, (d', snd s @ [ev])))"

subsection \<open>The world (\<^verbatim>\<open>support/world.js\<close>)\<close>

text \<open>
  The field \<^verbatim>\<open>context\<close> of the class is \<open>bcontext\<close> here. A handle is \<open>None\<close> when the
  JavaScript field is \<^verbatim>\<open>null\<close>; objects are truthy, so \<^verbatim>\<open>if (this.page)\<close> is
  \<open>page w \<noteq> None\<close>. \<open>attach\<close> is \<open>None\<close> when the runner passed no attach function.
\<close>

record world =
  browser :: "browser_handle option"
  bcontext :: "context_handle option"
  page :: "page_handle option"
  attach :: "attach_handle option"

definition CustomWorld_constructor :: "attach_handle option \<Rightarrow> world" where
  "CustomWorld_constructor att =
     \<lparr>browser = None, bcontext = None, page = None, attach = att\<rparr>"

definition no_page :: error where
  "no_page = Error ''No page available on World''"

definition takeAndAttachScreenshot ::
  "'d driver \<Rightarrow> world \<Rightarrow> string \<Rightarrow> 'd st \<Rightarrow> (error + buffer) \<times> 'd st" where
  "takeAndAttachScreenshot drv w name s =
     (case page w of
        None \<Rightarrow> (Inl no_page, s)
      | Some p \<Rightarrow>
         (case call (Screenshot p True) (screenshot drv p True) s of
            (Inl e, s1) \<Rightarrow> (Inl e, s1)
          | (Inr buf, s1) \<Rightarrow>
             (case attach w of
                None \<Rightarrow> (Inr buf, s1)
              | Some a \<Rightarrow>
                 (case call (Attach a buf ''image/png'') (run_attach drv a buf ''image/png'') s1 of
                    (Inl e, s2) \<Rightarrow> (Inl e, s2)
                  | (Inr u, s2) \<Rightarrow> (Inr buf, s2)))))"

text \<open>
  \<^verbatim>\<open>goto(url, options)\<close>: the options object goes to the driver as it is and is left out here.
\<close>

definition goto :: "'d driver \<Rightarrow> world \<Rightarrow> string \<Rightarrow> 'd st \<Rightarrow> (error + unit) \<times> 'd st" where
  "goto drv w url s =
     (case page w of
        None \<Rightarrow> (Inl no_page, s)
      | Some p \<Rightarrow>
         (case call (Goto p url) (page_goto drv p url) s of
            (Inl e, s1) \<Rightarrow> (Inl e, s1)
          | (Inr u, s1) \<Rightarrow>
             call (WaitForLoadState p ''load'' 10000) (page_waitForLoadState drv p ''load'' 10000) s1))"

subsection \<open>The hooks (\<^verbatim>\<open>support/hooks.js\<close>)\<close>

text \<open>\<^verbatim>\<open>process.env\<close>: a variable is a string or absent.\<close>

type_synonym env = "string \<rightharpoonup> string"

record scenario_result =
  status :: jsval

record scenario =
  pickle_name :: string
  result :: "scenario_result option"

text \<open>\<^verbatim>\<open>process.env.BROWSER || 'chromium'\<close>: absent and the empty string are falsy.\<close>

definition browserName :: "env \<Rightarrow> string" where
  "browserName e = (case e ''BROWSER'' of None \<Rightarrow> ''chromium''
                    | Some v \<Rightarrow> if v = [] then ''chromium'' else v)"

text \<open>\<^verbatim>\<open>process.env.HEADLESS === 'true'\<close>.\<close>

definition headless :: "env \<Rightarrow> bool" where
  "headless e = (e ''HEADLESS'' = Some ''true'')"

text \<open>A template literal prints an absent variable as \<^verbatim>\<open>undefined\<close>.\<close>

definition show_env :: "string option \<Rightarrow> string" where
  "show_env v = (case v of None \<Rightarrow> ''undefined'' | Some x \<Rightarrow> x)"

definition show_bool :: "bool \<Rightarrow> string" where
  "show_bool b = (if b then ''true'' else ''false'')"

definition console_log :: "string \<Rightarrow> 'd st \<Rightarrow> 'd st" where
  "console_log msg s = (fst s, snd s @ [ConsoleLog msg])"

text \<open>What reading \<^verbatim>\<open>.launch\<close> from \<^verbatim>\<open>undefined\<close> throws.\<close>

definition undefined_launch :: error where
  "undefined_launch =
     TypeError (''Cannot read properties of undefined (reading '' @ [CHR 0x27] @ ''launch''
                  @ [CHR 0x27] @ '')'')"

definition Before ::
  "'d driver \<Rightarrow> env \<Rightarrow> world \<Rightarrow> scenario \<Rightarrow> 'd st \<Rightarrow> (error + unit) \<times> world \<times> 'd st" where
  "Before drv e w sc s =
     (case playwright drv (browserName e) of
        None \<Rightarrow> (Inl undefined_launch, w, s)
      | Some eng \<Rightarrow>
         (case call (Launch eng (headless e)) (launch drv eng (headless e)) s of
            (Inl err, s1) \<Rightarrow> (Inl err, w, s1)
          | (Inr b, s1) \<Rightarrow>
             (case call (NewContext b) (newContext drv b) s1 of
                (Inl err, s2) \<Rightarrow> (Inl err, w\<lparr>browser := Some b\<rparr>, s2)
              | (Inr c, s2) \<Rightarrow>
                 (case call (NewPage c) (newPage drv c) s2 of
                    (Inl err, s3) \<Rightarrow> (Inl err, w\<lparr>browser := Some b, bcontext := Some c\<rparr>, s3)
                  | (Inr p, s3) \<Rightarrow>
                     (Inr (),
                      w\<lparr>browser := Some b, bcontext := Some c, page := Some p, attach := attach w\<rparr>,
                      console_log (''Browser launched: '' @ browserName e @ '' (headless: ''
                                     @ show_bool (headless e) @ '')'')
                       (console_log (''Base URL: '' @ show_env (e ''BASE_URL''))
                         (console_log (''Environment: '' @ show_env (e ''ENV''))
                           (console_log ([CHR 0x0A] @ ''--- Executing scenario: '' @ pickle_name sc @ '' ---'')
                              s3))))))))"

text \<open>\<^verbatim>\<open>String(v)\<close> and \<^verbatim>\<open>toLowerCase\<close> (on bytes: only A to Z have a lower case).\<close>

fun String_js :: "jsval \<Rightarrow> string" where
  "String_js JUndefined = ''undefined''"
| "String_js JNull = ''null''"
| "String_js (JBool b) = show_bool b"
| "String_js (JStr s) = s"

definition toLowerCase_char :: "char \<Rightarrow> char" where
  "toLowerCase_char c =
     (if (65::nat) \<le> of_char c \<and> of_char c \<le> (90::nat) then char_of (of_char c + (32::nat)) else c)"

definition toLowerCase :: "string \<Rightarrow> string" where
  "toLowerCase s = map toLowerCase_char s"

text \<open>
  The test of the \<^verbatim>\<open>After\<close> hook:
  \<^verbatim>\<open>scenario.result && String(scenario.result.status).toLowerCase() === 'failed'\<close>.
\<close>

definition is_failed :: "scenario \<Rightarrow> bool" where
  "is_failed sc = (case result sc of None \<Rightarrow> False
                   | Some r \<Rightarrow> toLowerCase (String_js (status r)) = ''failed'')"

text \<open>The three guarded closes that end the \<^verbatim>\<open>After\<close> hook.\<close>

definition release_resources :: "'d driver \<Rightarrow> world \<Rightarrow> 'd st \<Rightarrow> (error + unit) \<times> 'd st" where
  "release_resources drv w s =
     (case (case page w of None \<Rightarrow> (Inr (), s)
            | Some p \<Rightarrow> call (PageClose p) (page_close drv p) s) of
        (Inl e, s1) \<Rightarrow> (Inl e, s1)
      | (Inr u, s1) \<Rightarrow>
         (case (case bcontext w of None \<Rightarrow> (Inr (), s1)
                | Some c \<Rightarrow> call (ContextClose c) (context_close drv c) s1) of
            (Inl e, s2) \<Rightarrow> (Inl e, s2)
          | (Inr u, s2) \<Rightarrow>
             (case browser w of None \<Rightarrow> (Inr (), s2)
              | Some b \<Rightarrow> call (BrowserClose b) (browser_close drv b) s2)))"

definition After ::
  "'d driver \<Rightarrow> world \<Rightarrow> scenario \<Rightarrow> 'd st \<Rightarrow> (error + unit) \<times> world \<times> 'd st" where
  "After drv w sc s =
     (if is_failed sc then
        (case takeAndAttachScreenshot drv w (pickle_name sc @ ''-failure-screenshot.png'') s of
           (Inl e, s1) \<Rightarrow> (Inl e, w, s1)
         | (Inr buf, s1) \<Rightarrow> (case release_resources drv w s1 of (r, s2) \<Rightarrow> (r, w, s2)))
      else (case release_resources drv w s of (r, s2) \<Rightarrow> (r, w, s2)))"

subsection \<open>Observing a run\<close>

text \<open>Classes of logged calls, for counting and ordering them.\<close>

fun is_attach :: "event \<Rightarrow> bool" where
  "is_attach (Attach a b m) = True"
| "is_attach _ = False"

fun is_screenshot :: "event \<Rightarrow> bool" where
  "is_screenshot (Screenshot p f) = True"
| "is_screenshot _ = False"

fun is_create :: "event \<Rightarrow> bool" where
  "is_create (Launch g h) = True"
| "is_create (NewContext b) = True"
| "is_create (NewPage c) = True"
| "is_create _ = False"

text \<open>
  The closes a complete release makes for a world: one for each handle that is set,
  the page first, then the browsing context, then the browser.
\<close>

definition closes :: "world \<Rightarrow> event list" where
  "closes w = (case page w of None \<Rightarrow> [] | Some p \<Rightarrow> [PageClose p])
            @ (case bcontext w of None \<Rightarrow> [] | Some c \<Rightarrow> [ContextClose c])
            @ (case browser w of None \<Rightarrow> [] | Some b \<Rightarrow> [BrowserClose b])"

text \<open>The page is usable: it is set and the driver answers a full-page screenshot of it.\<close>

definition page_usable :: "'d driver \<Rightarrow> world \<Rightarrow> 'd st \<Rightarrow> bool" where
  "page_usable drv w s =
     (case page w of None \<Rightarrow> False
      | Some p \<Rightarrow> \<not> isl (fst (screenshot drv p True (fst s))))"

text \<open>The calls one run of \<open>takeAndAttachScreenshot\<close> makes.\<close>

definition capture_events :: "'d driver \<Rightarrow> world \<Rightarrow> 'd st \<Rightarrow> event list" where
  "capture_events drv w s =
     (case page w of None \<Rightarrow> []
      | Some p \<Rightarrow> Screenshot p True #
          (case fst (screenshot drv p True (fst s)) of Inl e \<Rightarrow> []
           | Inr buf \<Rightarrow> (case attach w of None \<Rightarrow> [] | Some a \<Rightarrow> [Attach a buf ''image/png''])))"

text \<open>The letters of \<^verbatim>\<open>failed\<close>, each with its upper case.\<close>

definition failed_letters :: "(char \<times> char) list" where
  "failed_letters = [(CHR ''f'', CHR ''F''), (CHR ''a'', CHR ''A''), (CHR ''i'', CHR ''I''),
                     (CHR ''l'', CHR ''L''), (CHR ''e'', CHR ''E''), (CHR ''d'', CHR ''D'')]"

definition same_letter :: "char \<Rightarrow> char \<times> char \<Rightarrow> bool" where
  "same_letter c lu = (c = fst lu \<or> c = snd lu)"

subsection \<open>Concrete collaborators and inputs\<close>

text \<open>
  A driver double over the list of closed handles: it knows the three browser types,
  hands out the handles 1, 2 and 3, records every close and rejects the use of a closed
  page; the runner's attach always succeeds.
\<close>

definition closed_error :: error where
  "closed_error = DriverFailure ''Target page, context or browser has been closed''"

definition test_driver :: "nat list driver" where
  "test_driver =
     \<lparr>playwright = (\<lambda>n. if n = ''chromium'' \<or> n = ''firefox'' \<or> n = ''webkit'' then Some n else None),
      launch = (\<lambda>g h d. (Inr 1, d)),
      newContext = (\<lambda>b d. (Inr 2, d)),
      newPage = (\<lambda>c d. (Inr 3, d)),
      screenshot = (\<lambda>p f d. if p \<in> set d then (Inl closed_error, d) else (Inr ''PNG'', d)),
      page_goto = (\<lambda>p u d. if p \<in> set d then (Inl closed_error, d) else (Inr (), d)),
      page_waitForLoadState = (\<lambda>p l t d. if p \<in> set d then (Inl closed_error, d) else (Inr (), d)),
      page_close = (\<lambda>p d. (Inr (), p # d)),
      context_close = (\<lambda>c d. (Inr (), c # d)),
      browser_close = (\<lambda>b d. (Inr (), b # d)),
      run_attach = (\<lambda>a b m d. (Inr (), d))\<rparr>"

text \<open>The same double, but a page still answers a screenshot after its close.\<close>

definition lenient_driver :: "nat list driver" where
  "lenient_driver = test_driver\<lparr>screenshot := (\<lambda>p f d. (Inr ''PNG'', d))\<rparr>"

text \<open>The same double, but closing a page is rejected.\<close>

definition stuck_page_driver :: "nat list driver" where
  "stuck_page_driver =
     test_driver\<lparr>page_close := (\<lambda>p d. (Inl (DriverFailure ''page.close: Target crashed''), d))\<rparr>"

text \<open>The world as a successful \<open>Before\<close> on the double leaves it.\<close>

definition ready_world :: "attach_handle option \<Rightarrow> world" where
  "ready_world att = \<lparr>browser = Some 1, bcontext = Some 2, page = Some 3, attach = att\<rparr>"

definition scenario_with :: "jsval \<Rightarrow> scenario" where
  "scenario_with v = \<lparr>pickle_name = ''login'', result = Some \<lparr>status = v\<rparr>\<rparr>"

definition scenario_no_result :: scenario where
  "scenario_no_result = \<lparr>pickle_name = ''login'', result = None\<rparr>"

text \<open>The closed state and the log that a complete release of \<open>ready_world\<close> leaves.\<close>

definition released :: "nat list st" where
  "released = ([1, 2, 3], [PageClose 3, ContextClose 2, BrowserClose 1])"

section \<open>Properties\<close>

subsection \<open>Calls and their log\<close>

lemma call_eq: "call ev f s = (fst (f (fst s)), (snd (f (fst s)), snd s @ [ev]))"
  by (simp add: call_def split: prod.splits)

lemma takeAndAttachScreenshot_log:
  "snd (snd (takeAndAttachScreenshot drv w name s)) = snd s @ capture_events drv w s"
  by (simp add: takeAndAttachScreenshot_def capture_events_def call_eq
           split: option.splits sum.splits prod.splits)

lemma release_resources_log:
  "release_resources drv w s = (r, s') \<Longrightarrow>
     \<exists>evs. snd s' = snd s @ evs \<and> prefix evs (closes w) \<and> (r = Inr () \<longrightarrow> evs = closes w)"
  by (auto simp: release_resources_def closes_def call_eq split: option.splits sum.splits prod.splits)

lemma release_resources_null:
  "page w = None \<Longrightarrow> bcontext w = None \<Longrightarrow> browser w = None \<Longrightarrow>
     release_resources drv w s = (Inr (), s)"
  by (simp add: release_resources_def)

lemma filter_attach_closes: "filter is_attach (closes w) = []"
  by (simp add: closes_def split: option.splits)

lemma filter_screenshot_closes: "filter is_screenshot (closes w) = []"
  by (simp add: closes_def split: option.splits)

lemma filter_attach_capture:
  "length (filter is_attach (capture_events drv w s)) =
     (if page_usable drv w s \<and> attach w \<noteq> None then 1 else 0)"
  by (auto simp: capture_events_def page_usable_def split: option.splits sum.splits)

lemma prefix_filter_nil: "prefix evs xs \<Longrightarrow> filter P xs = [] \<Longrightarrow> filter P evs = []"
  by (auto simp: prefix_def)

text \<open>
  The shape of every run of \<open>After\<close>: the world comes back as it went in, and the log
  grows by the capture (when the status is failed) followed by a prefix of the closes.
\<close>

lemma After_log:
  assumes "After drv w sc s = (r, w', s')"
  shows "w' = w \<and> (\<exists>evs. snd s' = snd s @ (if is_failed sc then capture_events drv w s else []) @ evs
            \<and> prefix evs (closes w) \<and> (r = Inr () \<longrightarrow> evs = closes w))"
proof (cases "is_failed sc")
  case False
  with assms obtain r2 s2 where rel: "release_resources drv w s = (r2, s2)"
    and eq: "r = r2" "w' = w" "s' = s2"
    by (auto simp: After_def split: prod.splits)
  from release_resources_log [OF rel] eq False show ?thesis by auto
next
  case True
  let ?n = "pickle_name sc @ ''-failure-screenshot.png''"
  obtain r1 s1 where cap: "takeAndAttachScreenshot drv w ?n s = (r1, s1)"
    by (cases "takeAndAttachScreenshot drv w ?n s") auto
  have lg: "snd s1 = snd s @ capture_events drv w s"
    using takeAndAttachScreenshot_log [of drv w ?n s] cap by simp
  show ?thesis
  proof (cases r1)
    case (Inl e)
    with assms True cap have "r = Inl e" "w' = w" "s' = s1"
      by (auto simp: After_def)
    with lg True show ?thesis by auto
  next
    case (Inr buf)
    with assms True cap obtain r2 s2 where rel: "release_resources drv w s1 = (r2, s2)"
      and eq: "r = r2" "w' = w" "s' = s2"
      by (auto simp: After_def split: prod.splits)
    from release_resources_log [OF rel] eq lg True show ?thesis by auto
  qed
qed

subsection \<open>Lower case on bytes\<close>

lemma of_char_less_256_nat: "(of_char c :: nat) < 256"
  by (cases c) simp

lemma of_char_toLowerCase_char:
  "(of_char (toLowerCase_char c) :: nat) =
     (if 65 \<le> (of_char c :: nat) \<and> (of_char c :: nat) \<le> 90 then of_char c + 32 else of_char c)"
  using of_char_less_256_nat [of c] by (simp add: toLowerCase_char_def)

lemma char_eq_nat: "c = d \<longleftrightarrow> (of_char c :: nat) = of_char d"
  by simp

lemma toLowerCase_char_eq_iff:
  assumes "(97::nat) \<le> of_char l" and "of_char l \<le> (122::nat)"
    and "(of_char u :: nat) + 32 = of_char l"
  shows "toLowerCase_char c = l \<longleftrightarrow> c = l \<or> c = u"
proof -
  have "toLowerCase_char c = l \<longleftrightarrow> (of_char (toLowerCase_char c) :: nat) = of_char l"
    by simp
  also have "\<dots> \<longleftrightarrow> (of_char c :: nat) = of_char l \<or> (of_char c :: nat) = of_char u"
    unfolding of_char_toLowerCase_char using assms by presburger
  also have "\<dots> \<longleftrightarrow> c = l \<or> c = u"
    by simp
  finally show ?thesis .
qed

lemma lower_f: "toLowerCase_char c = CHR ''f'' \<longleftrightarrow> c = CHR ''f'' \<or> c = CHR ''F''"
  by (rule toLowerCase_char_eq_iff) simp_all

lemma lower_a: "toLowerCase_char c = CHR ''a'' \<longleftrightarrow> c = CHR ''a'' \<or> c = CHR ''A''"
  by (rule toLowerCase_char_eq_iff) simp_all

lemma lower_i: "toLowerCase_char c = CHR ''i'' \<longleftrightarrow> c = CHR ''i'' \<or> c = CHR ''I''"
  by (rule toLowerCase_char_eq_iff) simp_all

lemma lower_l: "toLowerCase_char c = CHR ''l'' \<longleftrightarrow> c = CHR ''l'' \<or> c = CHR ''L''"
  by (rule toLowerCase_char_eq_iff) simp_all

lemma lower_e: "toLowerCase_char c = CHR ''e'' \<longleftrightarrow> c = CHR ''e'' \<or> c = CHR ''E''"
  by (rule toLowerCase_char_eq_iff) simp_all

lemma lower_d: "toLowerCase_char c = CHR ''d'' \<longleftrightarrow> c = CHR ''d'' \<or> c = CHR ''D''"
  by (rule toLowerCase_char_eq_iff) simp_all

lemma toLowerCase_failed_iff:
  "toLowerCase s = ''failed'' \<longleftrightarrow> list_all2 same_letter s failed_letters"
  by (auto simp: toLowerCase_def failed_letters_def same_letter_def map_eq_Cons_conv list_all2_Cons2
        lower_f lower_a lower_i lower_l lower_e lower_d)

subsection \<open>The concrete inputs\<close>

lemma is_failed_FAILED: "is_failed (scenario_with (JStr ''FAILED''))"
  by (simp add: is_failed_def scenario_with_def toLowerCase_def char_eq_nat of_char_toLowerCase_char)

lemma is_failed_failed: "is_failed (scenario_with (JStr ''failed''))"
  by (simp add: is_failed_def scenario_with_def toLowerCase_def char_eq_nat of_char_toLowerCase_char)

lemma not_failed_PASSED: "\<not> is_failed (scenario_with (JStr ''PASSED''))"
  by (simp add: is_failed_def scenario_with_def toLowerCase_def char_eq_nat of_char_toLowerCase_char)

lemma After_ready_FAILED:
  "After test_driver (ready_world (Some 7)) (scenario_with (JStr ''FAILED'')) ([], [])
     = (Inr (), ready_world (Some 7),
        ([1, 2, 3], [Screenshot 3 True, Attach 7 ''PNG'' ''image/png'',
                     PageClose 3, ContextClose 2, BrowserClose 1]))"
  by (simp add: is_failed_FAILED After_def takeAndAttachScreenshot_def release_resources_def
        call_def test_driver_def ready_world_def)

lemma After_ready_PASSED:
  "After test_driver (ready_world (Some 7)) (scenario_with (JStr ''PASSED'')) ([], [])
     = (Inr (), ready_world (Some 7), released)"
  by (simp add: not_failed_PASSED After_def release_resources_def call_def test_driver_def
        ready_world_def released_def)

lemma After_null_PASSED:
  "After test_driver (CustomWorld_constructor (Some 7)) (scenario_with (JStr ''PASSED'')) ([], [])
     = (Inr (), CustomWorld_constructor (Some 7), ([], []))"
  by (simp add: not_failed_PASSED After_def release_resources_def CustomWorld_constructor_def)

section \<open>The claims\<close>

subsection \<open>Errors during teardown\<close>

text \<open>
  Claim C1. When the status is failed, a failure of the screenshot capture or of the
  attachment is caught inside teardown and does not leave the \<open>After\<close> hook.

  The hook has no handler around the capture. On a world whose page was never set (the
  state a failed setup leaves) a failed scenario makes \<open>After\<close> end with the error
  \<^verbatim>\<open>No page available on World\<close> before any release; on a page that is already closed
  the driver's rejection leaves the hook the same way, the context and the browser
  unreleased. The hook documented in the repository's README wraps the capture in
  \<^verbatim>\<open>try\<close>/\<^verbatim>\<open>catch\<close>.
\<close>

theorem After_capture_error_propagates:
  "After test_driver (CustomWorld_constructor (Some 7)) (scenario_with (JStr ''FAILED'')) ([], [])
     = (Inl no_page, CustomWorld_constructor (Some 7), ([], []))
   \<and> After test_driver (ready_world (Some 7)) (scenario_with (JStr ''FAILED'')) ([3], [])
     = (Inl closed_error, ready_world (Some 7), ([3], [Screenshot 3 True]))"
  by (simp add: is_failed_FAILED After_def takeAndAttachScreenshot_def call_def test_driver_def
        ready_world_def CustomWorld_constructor_def)

text \<open>
  Claim C2. Each of the three releases is guarded on its own: an error of one does not
  keep the others from being attempted, and no release error leaves teardown.

  The three closes are awaited one after the other with no handler. With a driver
  that rejects the close of the page, \<open>After\<close> ends with that error after the single call
  \<open>PageClose\<close>: neither the context nor the browser is closed. The hook documented in
  the repository's README wraps each close in its own \<^verbatim>\<open>try\<close>/\<^verbatim>\<open>catch\<close>.
\<close>

theorem After_release_error_propagates:
  "After stuck_page_driver (ready_world (Some 7)) (scenario_with (JStr ''PASSED'')) ([], [])
     = (Inl (DriverFailure ''page.close: Target crashed''), ready_world (Some 7), ([], [PageClose 3]))"
  by (simp add: not_failed_PASSED After_def release_resources_def call_def stuck_page_driver_def
        test_driver_def ready_world_def)

subsection \<open>Setup\<close>

text \<open>
  Claim C3. With the variable \<^verbatim>\<open>HEADLESS\<close> absent the browser is launched headless.

  The hook computes \<^verbatim>\<open>process.env.HEADLESS === 'true'\<close>: with the variable absent the
  flag is false and the launch is headed. The repository's README names the run without
  variables the headless one.
\<close>

theorem Before_unset_HEADLESS_is_headed:
  "headless Map.empty = False
   \<and> hd (snd (snd (snd (Before test_driver Map.empty (CustomWorld_constructor (Some 7))
                          (scenario_with (JStr ''PASSED'')) ([], [])))))
       = Launch ''chromium'' False"
  by (simp add: Before_def headless_def browserName_def call_def test_driver_def console_log_def)

text \<open>
  Claim C7. A new world holds no handle; after a setup that ends without error the
  browser, the context and the page are set on the world; the world never holds more
  than one of each.

  The constructor sets the three fields to \<^verbatim>\<open>null\<close>. A successful \<open>Before\<close> asks the
  driver for exactly one browser, one context in it and one page in that, in this
  order, and stores the three answers (the attach capability stays as it was); a
  \<open>Before\<close> that fails has asked for at most one of each, in the same order.
\<close>

theorem Before_establishes_handles:
  assumes "Before drv e w sc s = (r, w', s')"
  shows "browser (CustomWorld_constructor att) = None
     \<and> bcontext (CustomWorld_constructor att) = None
     \<and> page (CustomWorld_constructor att) = None
     \<and> (r = Inr () \<longrightarrow>
          (\<exists>g b c p evs. playwright drv (browserName e) = Some g
             \<and> w' = w\<lparr>browser := Some b, bcontext := Some c, page := Some p\<rparr>
             \<and> snd s' = snd s @ evs
             \<and> filter is_create evs = [Launch g (headless e), NewContext b, NewPage c]))
     \<and> (\<exists>evs g b c. snd s' = snd s @ evs
             \<and> prefix (filter is_create evs) [Launch g (headless e), NewContext b, NewPage c])"
  using assms
  by (auto simp: Before_def CustomWorld_constructor_def call_eq console_log_def
           split: option.splits sum.splits prod.splits)

theorem Before_establishes_handles_witness:
  "fst (Before test_driver Map.empty (CustomWorld_constructor (Some 7))
          (scenario_with (JStr ''PASSED'')) ([], [])) = Inr ()
   \<and> fst (snd (Before test_driver Map.empty (CustomWorld_constructor (Some 7))
          (scenario_with (JStr ''PASSED'')) ([], []))) = ready_world (Some 7)
   \<and> filter is_create (snd (snd (snd (Before test_driver Map.empty (CustomWorld_constructor (Some 7))
          (scenario_with (JStr ''PASSED'')) ([], [])))))
       = [Launch ''chromium'' False, NewContext 1, NewPage 2]"
proof -
  let ?B = "Before test_driver Map.empty (CustomWorld_constructor (Some 7))
              (scenario_with (JStr ''PASSED'')) ([], [])"
  have h: "?B = (fst ?B, fst (snd ?B), snd (snd ?B))" by simp
  have ok: "fst ?B = Inr ()"
    by (simp add: Before_def browserName_def call_def test_driver_def)
  have w: "fst (snd ?B) = ready_world (Some 7)"
    by (simp add: Before_def browserName_def call_def test_driver_def ready_world_def
          CustomWorld_constructor_def)
  from Before_establishes_handles [OF h, of "Some 7"] ok
  obtain g b c p evs where g: "playwright test_driver (browserName Map.empty) = Some g"
    and w': "fst (snd ?B) = (CustomWorld_constructor (Some 7))\<lparr>browser := Some b, bcontext := Some c, page := Some p\<rparr>"
    and lg: "snd (snd (snd ?B)) = snd ([] :: nat list, [] :: event list) @ evs"
    and cr: "filter is_create evs = [Launch g (headless Map.empty), NewContext b, NewPage c]"
    by blast
  from g have g': "g = ''chromium''"
    by (simp add: browserName_def test_driver_def)
  from w' w have bc: "b = 1" "c = 2"
    by (simp_all add: ready_world_def CustomWorld_constructor_def)
  from lg cr g' bc have "filter is_create (snd (snd (snd ?B)))
       = [Launch ''chromium'' False, NewContext 1, NewPage 2]"
    by (simp add: headless_def)
  with ok w show ?thesis by simp
qed

subsection \<open>Evidence capture\<close>

text \<open>
  Claim C10. With a page set, \<open>takeAndAttachScreenshot\<close> returns the captured buffer
  whenever it returns; the attach capability is called with that buffer exactly when
  the world has one; without it the call captures and returns the buffer.
\<close>

theorem takeAndAttachScreenshot_returns_buffer:
  assumes "page w = Some p" and "screenshot drv p True (fst s) = (Inr buf, d1)"
  shows "(attach w = None \<longrightarrow>
            takeAndAttachScreenshot drv w name s = (Inr buf, (d1, snd s @ [Screenshot p True])))
       \<and> (\<forall>a. attach w = Some a \<longrightarrow>
            snd (snd (takeAndAttachScreenshot drv w name s))
              = snd s @ [Screenshot p True, Attach a buf ''image/png'']
          \<and> fst (takeAndAttachScreenshot drv w name s)
              = (case fst (run_attach drv a buf ''image/png'' d1) of Inl e \<Rightarrow> Inl e | Inr u \<Rightarrow> Inr buf))
       \<and> (\<forall>b. fst (takeAndAttachScreenshot drv w name s) = Inr b \<longrightarrow> b = buf)"
  using assms
  by (auto simp: takeAndAttachScreenshot_def call_eq split: option.splits sum.splits prod.splits)

theorem takeAndAttachScreenshot_returns_buffer_witness:
  "page (ready_world None) = Some 3
   \<and> page (ready_world (Some 7)) = Some 3
   \<and> screenshot test_driver 3 True [] = (Inr ''PNG'', [])
   \<and> takeAndAttachScreenshot test_driver (ready_world None) ''shot.png'' ([], [])
       = (Inr ''PNG'', ([], [Screenshot 3 True]))
   \<and> snd (snd (takeAndAttachScreenshot test_driver (ready_world (Some 7)) ''shot.png'' ([], [])))
       = [Screenshot 3 True, Attach 7 ''PNG'' ''image/png'']
   \<and> fst (takeAndAttachScreenshot test_driver (ready_world (Some 7)) ''shot.png'' ([], []))
       = Inr ''PNG''"
proof -
  have p0: "page (ready_world None) = Some 3" and p7: "page (ready_world (Some 7)) = Some 3"
    by (simp_all add: ready_world_def)
  have sh: "screenshot test_driver 3 True (fst ([] :: nat list, [] :: event list)) = (Inr ''PNG'', [])"
    by (simp add: test_driver_def)
  have a0: "attach (ready_world None) = None" and a7: "attach (ready_world (Some 7)) = Some 7"
    by (simp_all add: ready_world_def)
  have at: "fst (run_attach test_driver 7 ''PNG'' ''image/png'' []) = Inr ()"
    by (simp add: test_driver_def)
  note t0 = takeAndAttachScreenshot_returns_buffer [OF p0 sh, of "''shot.png''"]
  note t7 = takeAndAttachScreenshot_returns_buffer [OF p7 sh, of "''shot.png''"]
  from t0 [THEN conjunct1] a0
  have 1: "takeAndAttachScreenshot test_driver (ready_world None) ''shot.png'' ([], [])
       = (Inr ''PNG'', ([], [Screenshot 3 True]))" by simp
  from t7 [THEN conjunct2, THEN conjunct1] a7
  have "snd (snd (takeAndAttachScreenshot test_driver (ready_world (Some 7)) ''shot.png'' ([], [])))
       = snd ([] :: nat list, [] :: event list) @ [Screenshot 3 True, Attach 7 ''PNG'' ''image/png'']
     \<and> fst (takeAndAttachScreenshot test_driver (ready_world (Some 7)) ''shot.png'' ([], []))
       = (case fst (run_attach test_driver 7 ''PNG'' ''image/png'' []) of Inl e \<Rightarrow> Inl e
          | Inr u \<Rightarrow> Inr ''PNG'')"
    by blast
  with at
  have 2: "snd (snd (takeAndAttachScreenshot test_driver (ready_world (Some 7)) ''shot.png'' ([], [])))
       = [Screenshot 3 True, Attach 7 ''PNG'' ''image/png'']
     \<and> fst (takeAndAttachScreenshot test_driver (ready_world (Some 7)) ''shot.png'' ([], []))
       = Inr ''PNG''" by simp
  from p0 p7 sh 1 2 show ?thesis by simp
qed

text \<open>
  Claim C4. Teardown attaches a screenshot exactly when the status is failed: one
  image when it is failed and the page is usable, none for any other status.

  As stated this fails on a world without attach capability: the screenshot is taken
  and nothing is attached, since the world calls \<^verbatim>\<open>this.attach\<close> only if it is set.
\<close>

theorem After_failed_without_attach_counterexample:
  "is_failed (scenario_with (JStr ''FAILED''))
   \<and> page_usable test_driver (ready_world None) ([], [])
   \<and> After test_driver (ready_world None) (scenario_with (JStr ''FAILED'')) ([], [])
       = (Inr (), ready_world None,
          ([1, 2, 3], [Screenshot 3 True, PageClose 3, ContextClose 2, BrowserClose 1]))
   \<and> length (filter is_attach [Screenshot 3 True, PageClose 3, ContextClose 2, BrowserClose 1]) = 0"
  by (simp add: is_failed_FAILED page_usable_def After_def takeAndAttachScreenshot_def
        release_resources_def call_def test_driver_def ready_world_def)

text \<open>
  Claim C4, amended. The number of attach calls teardown makes is one when the status
  is failed, the page is usable and the world has an attach capability, and zero in
  every other case, whatever the releases do afterwards.
\<close>

theorem After_attach_count:
  assumes "After drv w sc s = (r, w', s')"
  shows "\<exists>evs. snd s' = snd s @ evs \<and>
           length (filter is_attach evs) =
             (if is_failed sc \<and> page_usable drv w s \<and> attach w \<noteq> None then 1 else 0)"
proof -
  from After_log [OF assms] obtain evs where
    lg: "snd s' = snd s @ (if is_failed sc then capture_events drv w s else []) @ evs"
    and pre: "prefix evs (closes w)" by blast
  have fe: "filter is_attach evs = []"
    using pre filter_attach_closes by (rule prefix_filter_nil)
  let ?all = "(if is_failed sc then capture_events drv w s else []) @ evs"
  have "length (filter is_attach ?all) =
      (if is_failed sc \<and> page_usable drv w s \<and> attach w \<noteq> None then 1 else 0)"
  proof (cases "is_failed sc")
    case True
    then have "length (filter is_attach ?all) = length (filter is_attach (capture_events drv w s))"
      using fe by simp
    with True show ?thesis by (simp only: filter_attach_capture) simp
  next
    case False
    then show ?thesis using fe by simp
  qed
  with lg show ?thesis by blast
qed

theorem After_attach_count_witness:
  "After test_driver (ready_world (Some 7)) (scenario_with (JStr ''FAILED'')) ([], [])
     = (Inr (), ready_world (Some 7),
        ([1, 2, 3], [Screenshot 3 True, Attach 7 ''PNG'' ''image/png'',
                     PageClose 3, ContextClose 2, BrowserClose 1]))
   \<and> length (filter is_attach [Screenshot 3 True, Attach 7 ''PNG'' ''image/png'',
                                PageClose 3, ContextClose 2, BrowserClose 1]) = 1
   \<and> After test_driver (ready_world (Some 7)) (scenario_with (JStr ''PASSED'')) ([], [])
     = (Inr (), ready_world (Some 7), released)
   \<and> length (filter is_attach (snd released)) = 0"
proof -
  have u: "page_usable test_driver (ready_world (Some 7)) ([], [])"
    by (simp add: page_usable_def test_driver_def ready_world_def)
  have a: "attach (ready_world (Some 7)) \<noteq> None"
    by (simp add: ready_world_def)
  from After_attach_count [OF After_ready_FAILED] is_failed_FAILED u a
  have 1: "length (filter is_attach [Screenshot 3 True, Attach 7 ''PNG'' ''image/png'',
                                PageClose 3, ContextClose 2, BrowserClose 1]) = 1"
    by simp
  from After_attach_count [OF After_ready_PASSED] not_failed_PASSED
  have 2: "length (filter is_attach (snd released)) = 0"
    by simp
  from After_ready_FAILED After_ready_PASSED 1 2 show ?thesis by blast
qed

text \<open>
  Claim C8. For a failed scenario whose page is usable, the evidence is a full-page
  screenshot and it is attached with media type \<^verbatim>\<open>image/png\<close>.

  As stated this fails on a world without attach capability: the full-page screenshot
  is the only call of the capture, and the three closes follow it.
\<close>

theorem After_fullpage_without_attach_counterexample:
  "is_failed (scenario_with (JStr ''failed''))
   \<and> page (ready_world None) = Some 3
   \<and> screenshot test_driver 3 True [] = (Inr ''PNG'', [])
   \<and> snd (snd (snd (After test_driver (ready_world None) (scenario_with (JStr ''failed'')) ([], []))))
       = [Screenshot 3 True, PageClose 3, ContextClose 2, BrowserClose 1]"
  by (simp add: is_failed_failed After_def takeAndAttachScreenshot_def
        release_resources_def call_def test_driver_def ready_world_def)

text \<open>
  Claim C8, amended. For a failed scenario whose page is usable, teardown first asks
  the driver for a screenshot of that page with \<^verbatim>\<open>fullPage\<close> set; when the world has an
  attach capability, the next call attaches the captured buffer with media type
  \<^verbatim>\<open>image/png\<close>, and when it has none nothing is attached; no other screenshot and no
  other attachment follow.
\<close>

theorem After_failed_fullpage_png:
  assumes "is_failed sc" and "page w = Some p"
    and "screenshot drv p True (fst s) = (Inr buf, d1)"
    and "After drv w sc s = (r, w', s')"
  shows "\<exists>evs. snd s' = snd s @ Screenshot p True #
                   (case attach w of None \<Rightarrow> [] | Some a \<Rightarrow> [Attach a buf ''image/png'']) @ evs
               \<and> filter is_screenshot evs = [] \<and> filter is_attach evs = []"
proof -
  from After_log [OF assms(4)] assms(1) obtain evs where
    lg: "snd s' = snd s @ capture_events drv w s @ evs"
    and pre: "prefix evs (closes w)" by auto
  have cap: "capture_events drv w s = Screenshot p True #
      (case attach w of None \<Rightarrow> [] | Some a \<Rightarrow> [Attach a buf ''image/png''])"
    using assms(2,3) by (simp add: capture_events_def)
  have "filter is_attach evs = []"
    using pre filter_attach_closes by (rule prefix_filter_nil)
  moreover have "filter is_screenshot evs = []"
    using pre filter_screenshot_closes by (rule prefix_filter_nil)
  ultimately show ?thesis using lg cap by simp
qed

theorem After_failed_fullpage_png_witness:
  "is_failed (scenario_with (JStr ''FAILED''))
   \<and> page (ready_world (Some 7)) = Some 3
   \<and> screenshot test_driver 3 True [] = (Inr ''PNG'', [])
   \<and> (\<exists>evs. [Screenshot 3 True, Attach 7 ''PNG'' ''image/png'',
               PageClose 3, ContextClose 2, BrowserClose 1]
              = Screenshot 3 True # Attach 7 ''PNG'' ''image/png'' # evs
            \<and> filter is_screenshot evs = [] \<and> filter is_attach evs = [])"
proof -
  have p: "page (ready_world (Some 7)) = Some 3"
    by (simp add: ready_world_def)
  have sh: "screenshot test_driver 3 True (fst ([] :: nat list, [] :: event list)) = (Inr ''PNG'', [])"
    by (simp add: test_driver_def)
  have a: "attach (ready_world (Some 7)) = Some 7"
    by (simp add: ready_world_def)
  from After_failed_fullpage_png [OF is_failed_FAILED p sh After_ready_FAILED] a
  have "\<exists>evs. [Screenshot 3 True, Attach 7 ''PNG'' ''image/png'',
               PageClose 3, ContextClose 2, BrowserClose 1]
              = Screenshot 3 True # Attach 7 ''PNG'' ''image/png'' # evs
            \<and> filter is_screenshot evs = [] \<and> filter is_attach evs = []"
    by simp
  with is_failed_FAILED p sh show ?thesis by simp
qed

text \<open>
  Claim C9. When the scenario has no result object, the capture is skipped (no
  screenshot, no attachment, no read of a status) and teardown is the release alone;
  the test for failure prints the status as a string and compares it with \<^verbatim>\<open>failed\<close>
  without regard to case.
\<close>

theorem After_absent_result:
  "(result sc = None \<longrightarrow>
      After drv w sc s = (fst (release_resources drv w s), w, snd (release_resources drv w s))
      \<and> (\<exists>evs. snd (snd (snd (After drv w sc s))) = snd s @ evs \<and> prefix evs (closes w)
             \<and> filter is_screenshot evs = [] \<and> filter is_attach evs = []))
   \<and> (is_failed sc \<longleftrightarrow>
        (\<exists>r. result sc = Some r \<and> list_all2 same_letter (String_js (status r)) failed_letters))"
proof -
  have 2: "is_failed sc \<longleftrightarrow>
        (\<exists>r. result sc = Some r \<and> list_all2 same_letter (String_js (status r)) failed_letters)"
    by (simp add: is_failed_def toLowerCase_failed_iff split: option.splits)
  have 1: "After drv w sc s = (fst (release_resources drv w s), w, snd (release_resources drv w s))
      \<and> (\<exists>evs. snd (snd (snd (After drv w sc s))) = snd s @ evs \<and> prefix evs (closes w)
             \<and> filter is_screenshot evs = [] \<and> filter is_attach evs = [])"
    if none: "result sc = None"
  proof -
    from none have nf: "\<not> is_failed sc" by (simp add: is_failed_def)
    obtain r2 s2 where rel: "release_resources drv w s = (r2, s2)"
      by (cases "release_resources drv w s") auto
    have eq: "After drv w sc s = (r2, w, s2)"
      using nf rel by (simp add: After_def)
    from release_resources_log [OF rel] obtain evs where
      lg: "snd s2 = snd s @ evs" and pre: "prefix evs (closes w)" by blast
    have "filter is_attach evs = []"
      using pre filter_attach_closes by (rule prefix_filter_nil)
    moreover have "filter is_screenshot evs = []"
      using pre filter_screenshot_closes by (rule prefix_filter_nil)
    ultimately show ?thesis using eq rel lg pre by simp
  qed
  from 1 2 show ?thesis by blast
qed

theorem After_absent_result_witness:
  "result scenario_no_result = None
   \<and> After test_driver (ready_world (Some 7)) scenario_no_result ([], [])
       = (Inr (), ready_world (Some 7), released)
   \<and> is_failed (scenario_with (JStr ''FaILed''))
   \<and> \<not> is_failed (scenario_with JUndefined)"
proof -
  have n: "result scenario_no_result = None"
    by (simp add: scenario_no_result_def)
  have rel: "release_resources test_driver (ready_world (Some 7)) ([], []) = (Inr (), released)"
    by (simp add: release_resources_def call_def test_driver_def ready_world_def released_def)
  from After_absent_result [of scenario_no_result test_driver "ready_world (Some 7)" "([], [])"] n rel
  have 1: "After test_driver (ready_world (Some 7)) scenario_no_result ([], [])
       = (Inr (), ready_world (Some 7), released)" by simp
  have r: "result (scenario_with v) = Some \<lparr>status = v\<rparr>" for v
    by (simp add: scenario_with_def)
  have "list_all2 same_letter (String_js (JStr ''FaILed'')) failed_letters"
    by (simp add: same_letter_def failed_letters_def)
  with After_absent_result [of "scenario_with (JStr ''FaILed'')" test_driver "ready_world (Some 7)" "([], [])"] r
  have 2: "is_failed (scenario_with (JStr ''FaILed''))" by simp
  have "\<not> list_all2 same_letter (String_js JUndefined) failed_letters"
    by (simp add: same_letter_def failed_letters_def)
  with After_absent_result [of "scenario_with JUndefined" test_driver "ready_world (Some 7)" "([], [])"] r
  have 3: "\<not> is_failed (scenario_with JUndefined)" by simp
  from n 1 2 3 show ?thesis by blast
qed

subsection \<open>Release\<close>

text \<open>
  Claim C6. Teardown releases the page, then the context, then the browser, and the
  release of a handle that was never set is a no-op that raises nothing, also after a
  setup that failed before any handle was created.

  A setup on an engine name that the module does not have fails before the launch and
  leaves the new world with no handle. The scenario is then failed, so \<open>After\<close> takes
  the capture first: \<open>takeAndAttachScreenshot\<close> raises \<^verbatim>\<open>No page available on World\<close>,
  the hook ends with that error and the three guarded closes are never reached. Run on
  their own on that world they call nothing and return. The hook documented in the
  repository's README catches the error of the capture and goes on to the closes.
\<close>

theorem After_raises_after_failed_setup:
  "Before test_driver [''BROWSER'' \<mapsto> ''netscape''] (CustomWorld_constructor (Some 7))
        scenario_no_result ([], [])
     = (Inl undefined_launch, CustomWorld_constructor (Some 7), ([], []))
   \<and> After test_driver (CustomWorld_constructor (Some 7)) (scenario_with (JStr ''FAILED'')) ([], [])
     = (Inl no_page, CustomWorld_constructor (Some 7), ([], []))
   \<and> release_resources test_driver (CustomWorld_constructor (Some 7)) ([], [])
     = (Inr (), ([], []))"
  by (simp add: is_failed_FAILED Before_def After_def takeAndAttachScreenshot_def
        release_resources_def browserName_def test_driver_def CustomWorld_constructor_def)

text \<open>
  Claim C5. After teardown the handles of the world are closed in such a way that any
  further use of the world raises a clear no-page condition and never succeeds.

  As stated this fails: teardown closes the handles at the driver and leaves the fields
  of the world as they were. A later \<open>takeAndAttachScreenshot\<close> finds the page set,
  passes the guard and asks the driver: with a driver that still answers, it succeeds
  and attaches the image; with a driver that rejects a closed page, the error is the
  driver's, not the one of the world.
\<close>

theorem After_keeps_closed_page_counterexample:
  "After lenient_driver (ready_world (Some 7)) (scenario_with (JStr ''PASSED'')) ([], [])
     = (Inr (), ready_world (Some 7), released)
   \<and> takeAndAttachScreenshot lenient_driver (ready_world (Some 7)) ''late.png'' released
     = (Inr ''PNG'', ([1, 2, 3], [PageClose 3, ContextClose 2, BrowserClose 1,
                                  Screenshot 3 True, Attach 7 ''PNG'' ''image/png'']))
   \<and> After test_driver (ready_world (Some 7)) (scenario_with (JStr ''PASSED'')) ([], [])
     = (Inr (), ready_world (Some 7), released)
   \<and> takeAndAttachScreenshot test_driver (ready_world (Some 7)) ''late.png'' released
     = (Inl closed_error, ([1, 2, 3], [PageClose 3, ContextClose 2, BrowserClose 1,
                                       Screenshot 3 True]))
   \<and> closed_error \<noteq> no_page"
  by (simp add: not_failed_PASSED After_def takeAndAttachScreenshot_def release_resources_def
        call_def lenient_driver_def test_driver_def ready_world_def released_def
        closed_error_def no_page_def)

text \<open>
  Claim C5, amended. Teardown leaves the handles of the world as they were. After it,
  \<open>takeAndAttachScreenshot\<close> and \<open>goto\<close> raise \<^verbatim>\<open>No page available on World\<close>, with no
  call made, when the page was never set; when it was set they pass the guard and call
  the driver on that page, and an error of \<open>takeAndAttachScreenshot\<close> is then one that
  the driver's screenshot or the runner's attach answered.
\<close>

theorem After_leaves_handles:
  assumes "After drv w sc s = (r, w', s')"
  shows "w' = w
     \<and> (page w = None \<longrightarrow>
           takeAndAttachScreenshot drv w' name s' = (Inl no_page, s') \<and> goto drv w' url s' = (Inl no_page, s'))
     \<and> (\<forall>p. page w = Some p \<longrightarrow>
           (\<exists>evs. snd (snd (takeAndAttachScreenshot drv w' name s')) = snd s' @ Screenshot p True # evs)
         \<and> (\<exists>evs. snd (snd (goto drv w' url s')) = snd s' @ Goto p url # evs)
         \<and> (\<forall>e. fst (takeAndAttachScreenshot drv w' name s') = Inl e \<longrightarrow>
                fst (screenshot drv p True (fst s')) = Inl e
              \<or> (\<exists>buf a. fst (screenshot drv p True (fst s')) = Inr buf \<and> attach w = Some a
                    \<and> fst (run_attach drv a buf ''image/png'' (snd (screenshot drv p True (fst s')))) = Inl e)))"
proof -
  from After_log [OF assms] have w: "w' = w" by simp
  show ?thesis unfolding w
    by (auto simp: takeAndAttachScreenshot_def goto_def call_eq split: option.splits sum.splits prod.splits)
qed

theorem After_leaves_handles_witness:
  "After test_driver (ready_world (Some 7)) (scenario_with (JStr ''PASSED'')) ([], [])
     = (Inr (), ready_world (Some 7), released)
   \<and> page (ready_world (Some 7)) = Some 3
   \<and> (\<exists>evs. snd (snd (takeAndAttachScreenshot test_driver (ready_world (Some 7)) ''late.png'' released))
              = snd released @ Screenshot 3 True # evs)
   \<and> After test_driver (CustomWorld_constructor (Some 7)) (scenario_with (JStr ''PASSED'')) ([], [])
     = (Inr (), CustomWorld_constructor (Some 7), ([], []))
   \<and> page (CustomWorld_constructor (Some 7)) = None
   \<and> takeAndAttachScreenshot test_driver (CustomWorld_constructor (Some 7)) ''late.png'' ([], [])
     = (Inl no_page, ([], []))"
proof -
  note ready = After_leaves_handles [OF After_ready_PASSED, where name = "''late.png''" and url = "''/''"]
  note null = After_leaves_handles [OF After_null_PASSED, where name = "''late.png''" and url = "''/''"]
  have p: "page (ready_world (Some 7)) = Some 3"
    by (simp add: ready_world_def)
  have n: "page (CustomWorld_constructor (Some 7)) = None"
    by (simp add: CustomWorld_constructor_def)
  from ready [THEN conjunct2, THEN conjunct2] p
  have 1: "\<exists>evs. snd (snd (takeAndAttachScreenshot test_driver (ready_world (Some 7)) ''late.png'' released))
              = snd released @ Screenshot 3 True # evs"
    by blast
  from null [THEN conjunct2, THEN conjunct1] n
  have 2: "takeAndAttachScreenshot test_driver (CustomWorld_constructor (Some 7)) ''late.png'' ([], [])
     = (Inl no_page, ([], []))"
    by blast
  from After_ready_PASSED p 1 After_null_PASSED n 2 show ?thesis by blast
qed

end
